theory Spec2Isabelle
  imports Complex_Main
begin

section \<open>Number model\<close>

text \<open>
  The program computes with IEEE doubles (Python \<open>float\<close> and \<open>complex\<close>,
  \<open>numpy.float64\<close>, \<open>numpy.complex128\<close>). The embedding has two layers.

  \<^item> The float-valued stage (the constants, \<open>w\<close>, \<open>Rs\<close>, \<open>R\<close>, \<open>L_unit\<close>, \<open>C\<close>, \<open>G\<close>
    and the axis \<open>z\<close>) is written with the operations of \<open>real\<close>, formula by formula
    as the source has them. \<open>/\<close> on two Python floats raises \<open>ZeroDivisionError\<close> at
    a zero divisor (\<open>truediv\<close>); \<open>/\<close> with a numpy operand does not raise.
  \<^item> The complex stage (\<open>Z\<close>, \<open>Y\<close>, \<open>gamma\<close>, \<open>Z0\<close>, \<open>V_z\<close>, \<open>I_z\<close>) is kept as the
    expression the program evaluates, over the complex operations of Python and
    numpy (\<open>complex128\<close>). What double such an operation returns (its rounding, its
    \<open>inf\<close> and \<open>nan\<close> results on overflow or at a zero divisor, the root it picks
    at a signed zero) is not interpreted: two components with the same expression
    are the same double, and nothing more is read from an expression.

  The arguments \<open>f\<close>, \<open>d\<close>, \<open>W\<close>, \<open>L\<close> come from the sliders and number inputs of
  the form and the two material lists from the catalogues below, so they are Python
  floats in Python lists.
\<close>

datatype py_error = IndexError | ZeroDivisionError

definition getitem :: "real list \<Rightarrow> nat \<Rightarrow> py_error + real" where
  \<comment> \<open>\<open>xs[i]\<close> for a literal index \<open>i \<ge> 0\<close>\<close>
  "getitem xs i = (if i < length xs then Inr (xs ! i) else Inl IndexError)"

definition truediv :: "real \<Rightarrow> real \<Rightarrow> py_error + real" where
  \<comment> \<open>\<open>a / b\<close> on Python floats\<close>
  "truediv a b = (if b = 0 then Inl ZeroDivisionError else Inr (a / b))"

definition scimath_sqrt_real :: "real \<Rightarrow> complex" where
  \<comment> \<open>\<open>np.lib.scimath.sqrt\<close> of a float: a negative argument is first converted to
      complex, any other is given to the real square root. The float result is read
      inside \<open>complex\<close>.\<close>
  "scimath_sqrt_real x =
     (if x < 0 then csqrt (complex_of_real x) else complex_of_real (sqrt x))"

datatype complex128 =
    Val complex
  | Neg complex128
  | Add complex128 complex128
  | Mul complex128 complex128
  | Div complex128 complex128
  | Sqrt complex128
  | Exp complex128

text \<open>
  \<open>Val c\<close> is the complex double with the components of \<open>c\<close> (a float operand is
  converted to it before a complex operation). \<open>Neg\<close>, \<open>Add\<close>, \<open>Mul\<close>, \<open>Div\<close> are
  unary \<open>-\<close> and \<open>+\<close>, \<open>*\<close>, \<open>/\<close> on complex doubles, \<open>Sqrt\<close> is \<open>np.sqrt\<close> and
  \<open>Exp\<close> is \<open>np.exp\<close>. None of the divisions of this stage has two Python operands,
  so none raises.
\<close>

definition scimath_sqrt :: "complex128 \<Rightarrow> complex128" where
  \<comment> \<open>\<open>np.lib.scimath.sqrt\<close> of a complex number: the argument is complex already, so
      it goes to \<open>np.sqrt\<close> as it is\<close>
  "scimath_sqrt x = Sqrt x"

definition linspace :: "real \<Rightarrow> real \<Rightarrow> nat \<Rightarrow> real list" where
  \<comment> \<open>\<open>np.linspace(start, stop, num)\<close> with \<open>endpoint=True\<close>. \<open>num - 1\<close> is cut off at
      \<open>0\<close> on \<open>nat\<close>, where numpy has \<open>-1\<close>; both only ask whether it is positive. \<open>div0\<close> is
      the source's \<open>div\<close>.\<close>
  "linspace start stop num =
     (let div0 = num - 1;
          delta = stop - start;
          y = map real [0..<num];
          y = (if 0 < div0 then
                 (let step = delta / real div0
                  in if step = 0 then map (\<lambda>v. v / real div0 * delta) y
                     else map (\<lambda>v. v * step) y)
               else map (\<lambda>v. v * delta) y);
          y = map (\<lambda>v. v + start) y
      in if 1 < num then y[num - 1 := stop] else y)"


section \<open>Material catalogues\<close>

text \<open>
  The two dictionaries keep their insertion order (the form lists the keys in that
  order), so each is an association list; \<open>map_of\<close> is the lookup. A key is the UTF-8
  byte string of the Python name.
\<close>

definition MATERIALES_CONDUCTORES :: "(string \<times> real list) list" where
  \<comment> \<open>name, then \<open>[sigma_c, mu_r_conductor]\<close>\<close>
  "MATERIALES_CONDUCTORES = [
     (''Aluminio'', [38200000, 1]),
     (''Cobre'', [58000000, 1]),
     (''Oro'', [41000000, 1]),
     (''Plata'', [61700000, 1]),
     (''Hierro'', [10300000, 500]),
     (''N'' @ [CHR 0xC3, CHR 0xAD] @ ''quel'', [14500000, 100]),
     (''Lat'' @ [CHR 0xC3, CHR 0xB3] @ ''n'', [15000000, 1]),
     (''Zinc'', [16700000, 1]),
     (''Tungsteno'', [18200000, 1])]"

definition MATERIALES_DIELECTRICOS :: "(string \<times> real list) list" where
  \<comment> \<open>name, then \<open>[tan_delta, mu_r_diel, epsilon_r]\<close>\<close>
  "MATERIALES_DIELECTRICOS = [
     (''Aire'', [0, 1, 1.0005]),
     (''Alcohol_et'' @ [CHR 0xC3, CHR 0xAD] @ ''lico'', [100 / 10 ^ 3, 1, 25]),
     (''Oxido_de_aluminio'', [0.6 / 10 ^ 3, 1, 8.8]),
     (''Baquelita'', [22 / 10 ^ 3, 1, 4.74]),
     (''Di'' @ [CHR 0xC3, CHR 0xB3] @ ''xido_de_carbono'', [0, 1, 1.001]),
     (''Vidrio'', [2 / 10 ^ 3, 1, 4]),
     (''Hielo'', [50 / 10 ^ 3, 1, 4.2]),
     (''Mica'', [0.6 / 10 ^ 3, 1, 5.4]),
     (''Nylon'', [20 / 10 ^ 3, 1, 3.5]),
     (''Papel'', [8 / 10 ^ 3, 1, 3]),
     (''Plexigl'' @ [CHR 0xC3, CHR 0xA1] @ ''s'', [30 / 10 ^ 3, 1, 3.45]),
     (''Polietileno'', [0.2 / 10 ^ 3, 1, 2.26]),
     (''Polipropileno'', [0.3 / 10 ^ 3, 1, 2.25]),
     (''Poliestireno'', [0.05 / 10 ^ 3, 1, 2.56]),
     (''Porcelana'', [14 / 10 ^ 3, 1, 6]),
     (''Vidrio_Pyrex'', [0.6 / 10 ^ 3, 1, 4]),
     (''Cuarzo'', [0.75 / 10 ^ 3, 1, 3.8]),
     (''Hule'', [2 / 10 ^ 3, 1, 2.5]),
     (''Nieve'', [500 / 10 ^ 3, 1, 3.3]),
     (''Tierra_seca'', [50 / 10 ^ 3, 1, 2.8]),
     (''Teflon'', [0.3 / 10 ^ 3, 1, 2.1]),
     (''Madera_seca'', [10 / 10 ^ 3, 1, 1.5])]"


section \<open>The solver\<close>

definition mu0 :: real where
  "mu0 = 4 * pi * (1 / 10 ^ 7)"

definition eps0 :: real where
  "eps0 = 8.854 / 10 ^ 12"

type_synonym tem_result =
  "complex128 \<times> complex128 \<times> complex \<times> real \<times> real \<times> real
     \<times> real list \<times> complex128 list \<times> complex128 list"

text \<open>
  \<open>calculate_tem\<close> returns the tuple
  \<open>(gamma, Z0, R, L_unit, C, G, z, V_z, I_z)\<close>. The statements run in the order of the
  source, so the first failing one decides the exception. \<open>R\<close> is divided by \<open>W\<close>
  with numpy's division (\<open>Rs\<close> is a numpy scalar), which does not raise at \<open>W = 0\<close>;
  the next statement divides Python floats by \<open>W\<close> and does, so no \<open>R\<close> made with
  \<open>W = 0\<close> is ever returned. \<open>1j * w * L_unit\<close> is \<open>(1j * w) * L_unit\<close>, and
  \<open>-gamma * z\<close> is \<open>(-gamma) * z\<close>, element by element.
\<close>

definition calculate_tem ::
  "real \<Rightarrow> real \<Rightarrow> real \<Rightarrow> real list \<Rightarrow> real list \<Rightarrow> real \<Rightarrow> py_error + tem_result" where
  "calculate_tem f d W conductor_data dielectric_data L =
     (let w = 2 * pi * f in
      (case getitem conductor_data 0 of Inl e \<Rightarrow> Inl e | Inr sigma_c \<Rightarrow>
      (case getitem conductor_data 1 of Inl e \<Rightarrow> Inl e | Inr mur_c \<Rightarrow>
      (case getitem dielectric_data 0 of Inl e \<Rightarrow> Inl e | Inr tan_delta \<Rightarrow>
      (case getitem dielectric_data 2 of Inl e \<Rightarrow> Inl e | Inr er \<Rightarrow>
      (case truediv (pi * f * mu0 * mur_c) sigma_c of Inl e \<Rightarrow> Inl e | Inr q \<Rightarrow>
      (let Rs = scimath_sqrt_real q;
           R = (2 * Rs) / complex_of_real W in
      (case truediv (mu0 * mur_c * d) W of Inl e \<Rightarrow> Inl e | Inr L_unit \<Rightarrow>
      (case truediv (eps0 * er * W) d of Inl e \<Rightarrow> Inl e | Inr C \<Rightarrow>
      (let G = w * C * tan_delta;
           Z = Add (Val R)
                 (Mul (Mul (Val \<i>) (Val (complex_of_real w))) (Val (complex_of_real L_unit)));
           Y = Add (Val (complex_of_real G))
                 (Mul (Mul (Val \<i>) (Val (complex_of_real w))) (Val (complex_of_real C)));
           gamma = scimath_sqrt (Mul Z Y);
           Z0 = scimath_sqrt (Div Z Y);
           z = linspace 0 L 500;
           V_input = 1;
           V_z = map (\<lambda>x. Mul (Val V_input) (Exp (Mul (Neg gamma) (Val (complex_of_real x))))) z;
           I_z = map (\<lambda>v. Div v Z0) V_z
       in Inr (gamma, Z0, R, L_unit, C, G, z, V_z, I_z)))))))))))"


section \<open>What a call returns, and when it raises\<close>

lemma linspace_length: "length (linspace a b n) = n"
  by (simp add: linspace_def Let_def)

lemma linspace_nth:
  assumes "1 < n" "k < n"
  shows "linspace a b n ! k =
           (if k = n - 1 then b else real k * ((b - a) / real (n - 1)) + a)"
  using assms by (simp add: linspace_def Let_def nth_list_update)

lemma linspace_nth_uniform:
  assumes "1 < n" "k < n"
  shows "linspace a b n ! k = a + real k * ((b - a) / real (n - 1))"
proof (cases "k = n - 1")
  case True
  with assms have "real k * ((b - a) / real (n - 1)) = b - a" by simp
  with True assms show ?thesis by (simp add: linspace_nth)
next
  case False
  with assms show ?thesis by (simp add: linspace_nth)
qed

lemma scimath_sqrt_real_csqrt: "scimath_sqrt_real x = csqrt (complex_of_real x)"
  by (simp add: scimath_sqrt_real_def)

text \<open>
  A call returns exactly when both lists are long enough for the indices read and
  none of the three Python divisors is zero; the tuple is then given by the formulas
  of the source, each stated on the components returned before it.
\<close>

lemma calculate_tem_Inr_iff:
  "calculate_tem f d W cd dd L = Inr (gamma, Z0, R, L_unit, C, G, z, V_z, I_z) \<longleftrightarrow>
     1 < length cd \<and> 2 < length dd \<and> cd ! 0 \<noteq> 0 \<and> W \<noteq> 0 \<and> d \<noteq> 0 \<and>
     R = 2 * scimath_sqrt_real (pi * f * mu0 * (cd ! 1) / (cd ! 0)) / complex_of_real W \<and>
     L_unit = mu0 * (cd ! 1) * d / W \<and>
     C = eps0 * (dd ! 2) * W / d \<and>
     G = 2 * pi * f * C * (dd ! 0) \<and>
     gamma = Sqrt (Mul
       (Add (Val R)
          (Mul (Mul (Val \<i>) (Val (complex_of_real (2 * pi * f))))
             (Val (complex_of_real L_unit))))
       (Add (Val (complex_of_real G))
          (Mul (Mul (Val \<i>) (Val (complex_of_real (2 * pi * f))))
             (Val (complex_of_real C))))) \<and>
     Z0 = Sqrt (Div
       (Add (Val R)
          (Mul (Mul (Val \<i>) (Val (complex_of_real (2 * pi * f))))
             (Val (complex_of_real L_unit))))
       (Add (Val (complex_of_real G))
          (Mul (Mul (Val \<i>) (Val (complex_of_real (2 * pi * f))))
             (Val (complex_of_real C))))) \<and>
     z = linspace 0 L 500 \<and>
     V_z = map (\<lambda>x. Mul (Val 1) (Exp (Mul (Neg gamma) (Val (complex_of_real x))))) z \<and>
     I_z = map (\<lambda>v. Div v Z0) V_z"
  unfolding calculate_tem_def getitem_def truediv_def scimath_sqrt_def Let_def
  by (auto split: sum.splits if_splits)

lemma calculate_tem_Inl_iff:
  "calculate_tem f d W cd dd L = Inl e \<longleftrightarrow>
     (if length cd < 2 \<or> length dd < 3 then e = IndexError
      else e = ZeroDivisionError \<and> (cd ! 0 = 0 \<or> W = 0 \<or> d = 0))"
  unfolding calculate_tem_def getitem_def truediv_def Let_def
  by (auto split: sum.splits if_splits)

lemma calculate_tem_returns:
  assumes "sigma_c \<noteq> 0" "W \<noteq> 0" "d \<noteq> 0"
  shows "\<exists>gamma Z0 R L_unit C G z V_z I_z.
           calculate_tem f d W [sigma_c, mur_c] [tan_delta, mur_d, er] L
             = Inr (gamma, Z0, R, L_unit, C, G, z, V_z, I_z)"
  using assms by (simp add: calculate_tem_Inr_iff)


section \<open>Per-unit-length parameters\<close>

text \<open>
  Claim C1. For \<open>f > 0\<close>, \<open>d > 0\<close>, \<open>W > 0\<close>, a conductor \<open>[sigma_c, mur_c]\<close> with
  \<open>sigma_c > 0\<close> and a dielectric \<open>[tan_delta, mur_d, er]\<close>, the call returns, and the
  four line parameters of the tuple are
  \<open>R = 2 * sqrt (pi * f * mu0 * mur_c / sigma_c) / W\<close> with \<open>mu0 = 4 * pi * 1e-7\<close>,
  \<open>L_unit = mu0 * mur_c * d / W\<close>, \<open>C = eps0 * er * W / d\<close> with \<open>eps0 = 8.854e-12\<close>,
  and \<open>G = 2 * pi * f * C * tan_delta\<close>. The square root is the principal complex one
  of the specification; for \<open>mur_c \<ge> 0\<close> it is the real square root.
\<close>

theorem calculate_tem_line_parameters:
  assumes "0 < f" "0 < d" "0 < W" "0 < sigma_c"
  shows "\<exists>gamma Z0 R L_unit C G z V_z I_z.
           calculate_tem f d W [sigma_c, mur_c] [tan_delta, mur_d, er] L
             = Inr (gamma, Z0, R, L_unit, C, G, z, V_z, I_z) \<and>
           R = 2 * csqrt (complex_of_real (pi * f * mu0 * mur_c / sigma_c))
                 / complex_of_real W \<and>
           (0 \<le> mur_c \<longrightarrow>
              R = complex_of_real (2 * sqrt (pi * f * mu0 * mur_c / sigma_c) / W)) \<and>
           L_unit = mu0 * mur_c * d / W \<and>
           C = eps0 * er * W / d \<and>
           G = 2 * pi * f * C * tan_delta \<and>
           mu0 = 4 * pi * (1 / 10 ^ 7) \<and> eps0 = 8.854 / 10 ^ 12"
proof -
  have "0 \<le> mur_c \<Longrightarrow> 0 \<le> pi * f * mu0 * mur_c / sigma_c"
    using assms by (simp add: mu0_def)
  then show ?thesis
    using assms
    by (simp add: calculate_tem_Inr_iff scimath_sqrt_real_csqrt csqrt_of_real)
      (simp add: mu0_def eps0_def)
qed

theorem calculate_tem_line_parameters_witness:
  "\<exists>gamma Z0 R L_unit C G z V_z I_z.
     calculate_tem 6000000000 (5 / 1000) (1 / 10) [58000000, 1] [0, 1, 1.0005] 10
       = Inr (gamma, Z0, R, L_unit, C, G, z, V_z, I_z) \<and>
     R = 2 * csqrt (complex_of_real (pi * 6000000000 * mu0 * 1 / 58000000))
           / complex_of_real (1 / 10) \<and>
     R = complex_of_real (2 * sqrt (pi * 6000000000 * mu0 * 1 / 58000000) / (1 / 10)) \<and>
     L_unit = mu0 * 1 * (5 / 1000) / (1 / 10) \<and>
     C = eps0 * 1.0005 * (1 / 10) / (5 / 1000) \<and>
     G = 2 * pi * 6000000000 * C * 0"
  using calculate_tem_line_parameters [where f = 6000000000 and d = "5 / 1000"
      and W = "1 / 10" and sigma_c = 58000000 and mur_c = 1 and tan_delta = 0
      and mur_d = 1 and er = "1.0005" and L = 10]
  by simp blast


section \<open>Propagation constant and characteristic impedance\<close>




section \<open>Voltage and current profiles\<close>

text \<open>
  The profiles are lists of expressions, one for each point of the axis. What is
  stated of them below is their length and how each current sample is made from
  the voltage sample. The value of a sample (the sign of the real part of \<open>gamma\<close>,
  the first voltage sample, the size of \<open>|V_z[k]|\<close> along the line) is a matter of the
  double operations and has no statement in this theory.
\<close>



text \<open>
  Claim C6. For every valid input with \<open>L > 0\<close> the spatial axis has exactly 500
  points, starts at \<open>0\<close>, ends at \<open>L\<close>, is uniformly spaced (step \<open>L / 499\<close>) and
  strictly increasing, and the voltage and current profiles have 500 elements each.
\<close>

theorem calculate_tem_spatial_axis:
  assumes "0 < f" "0 < d" "0 < W" "0 < L" "0 < sigma_c"
  shows "\<exists>gamma Z0 R L_unit C G z V_z I_z.
           calculate_tem f d W [sigma_c, mur_c] [tan_delta, mur_d, er] L
             = Inr (gamma, Z0, R, L_unit, C, G, z, V_z, I_z) \<and>
           length z = 500 \<and> length V_z = 500 \<and> length I_z = 500 \<and>
           z ! 0 = 0 \<and> z ! 499 = L \<and>
           (\<forall>k < 500. z ! k = real k * (L / 499)) \<and>
           (\<forall>k < 499. z ! (k + 1) - z ! k = L / 499) \<and>
           sorted_wrt (<) z"
proof -
  define z where "z = linspace 0 L 500"
  have len: "length z = 500" by (simp add: z_def linspace_length)
  have nth: "z ! k = real k * (L / 499)" if "k < 500" for k
    using that linspace_nth_uniform [of 500 k 0 L] by (simp add: z_def)
  have first: "z ! 0 = 0" using nth [of 0] by simp
  have last: "z ! 499 = L" using nth [of 499] by simp
  have step: "z ! (k + 1) - z ! k = L / 499" if "k < 499" for k
    using that nth [of k] nth [of "k + 1"] by (simp add: algebra_simps)
  have "z ! i < z ! j" if "i < j" "j < 500" for i j
  proof -
    have "real i < real j" using that by simp
    moreover have "0 < L / 499" using assms by simp
    ultimately have "real i * (L / 499) < real j * (L / 499)" by simp
    with that show ?thesis by (simp add: nth)
  qed
  then have sorted: "sorted_wrt (<) z"
    by (simp add: sorted_wrt_iff_nth_less len)
  show ?thesis
    using assms len nth first last step sorted unfolding z_def
    by (simp add: calculate_tem_Inr_iff)
qed

theorem calculate_tem_spatial_axis_witness:
  "\<exists>gamma Z0 R L_unit C G z V_z I_z.
     calculate_tem 6000000000 (5 / 1000) (1 / 10) [58000000, 1] [0, 1, 1.0005] 10
       = Inr (gamma, Z0, R, L_unit, C, G, z, V_z, I_z) \<and>
     length z = 500 \<and> length V_z = 500 \<and> length I_z = 500 \<and>
     z ! 0 = 0 \<and> z ! 499 = 10 \<and> z ! 1 = 10 / 499 \<and> z ! 250 = 2500 / 499 \<and>
     z ! 1 - z ! 0 = 10 / 499 \<and> z ! 499 - z ! 498 = 10 / 499 \<and>
     sorted_wrt (<) z"
proof -
  obtain gamma Z0 R L_unit C G z V_z I_z where
    r: "calculate_tem 6000000000 (5 / 1000) (1 / 10) [58000000, 1] [0, 1, 1.0005] 10
          = Inr (gamma, Z0, R, L_unit, C, G, z, V_z, I_z)"
    and len: "length z = 500" "length V_z = 500" "length I_z = 500"
    and ends: "z ! 0 = 0" "z ! 499 = 10"
    and nth: "\<forall>k < 500. z ! k = real k * (10 / 499)"
    and step: "\<forall>k < 499. z ! (k + 1) - z ! k = 10 / 499"
    and sorted: "sorted_wrt (<) z"
    using calculate_tem_spatial_axis [where f = 6000000000 and d = "5 / 1000"
      and W = "1 / 10" and sigma_c = 58000000 and mur_c = 1 and tan_delta = 0
      and mur_d = 1 and er = "1.0005" and L = 10]
    by auto
  from nth have "z ! 1 = 10 / 499" "z ! 250 = 2500 / 499" by simp_all
  moreover have "z ! 1 - z ! 0 = 10 / 499" "z ! 499 - z ! 498 = 10 / 499"
    using step [THEN spec, of 0] step [THEN spec, of 498] by simp_all
  ultimately show ?thesis using r len ends sorted by auto
qed


section \<open>The catalogues\<close>

text \<open>
  Claim C8, as the code has it. The conductor catalogue has exactly 9 entries, each a
  pair, and the dielectric catalogue exactly 22, each a triple, with no name twice. The
  names are the Spanish ones of the source: the entry \<open>Cobre\<close> (copper) is
  \<open>sigma = 5.80e7\<close>, \<open>mu_r = 1.0\<close>, and the entry \<open>Aire\<close> (air) is \<open>tan_delta = 0\<close>,
  \<open>mu_r = 1.0\<close>, \<open>epsilon_r = 1.0005\<close>.
\<close>

theorem catalogues_sizes_and_entries:
  "length MATERIALES_CONDUCTORES = 9 \<and>
   distinct (map fst MATERIALES_CONDUCTORES) \<and>
   map (length \<circ> snd) MATERIALES_CONDUCTORES = replicate 9 2 \<and>
   length MATERIALES_DIELECTRICOS = 22 \<and>
   distinct (map fst MATERIALES_DIELECTRICOS) \<and>
   map (length \<circ> snd) MATERIALES_DIELECTRICOS = replicate 22 3 \<and>
   map_of MATERIALES_CONDUCTORES ''Cobre'' = Some [58000000, 1] \<and>
   map_of MATERIALES_DIELECTRICOS ''Aire'' = Some [0, 1, 1.0005]"
  by (simp add: MATERIALES_CONDUCTORES_def MATERIALES_DIELECTRICOS_def eval_nat_numeral)

text \<open>
  Neither catalogue has a key with the English name: a lookup of \<open>Copper\<close> among the
  conductors or of \<open>Air\<close> among the dielectrics finds nothing (in the program,
  \<open>KeyError\<close>).
\<close>

theorem catalogues_no_english_names:
  "''Copper'' \<notin> set (map fst MATERIALES_CONDUCTORES) \<and>
   ''Air'' \<notin> set (map fst MATERIALES_DIELECTRICOS) \<and>
   map_of MATERIALES_CONDUCTORES ''Copper'' = None \<and>
   map_of MATERIALES_DIELECTRICOS ''Air'' = None"
  by (simp add: MATERIALES_CONDUCTORES_def MATERIALES_DIELECTRICOS_def)


section \<open>Totality and independence of the dielectric permeability\<close>

text \<open>
  Claim C9. For strictly positive \<open>f\<close>, \<open>d\<close>, \<open>W\<close>, \<open>L\<close> and \<open>sigma_c\<close> the call raises
  nothing and returns a result tuple. (By \<open>calculate_tem_Inl_iff\<close> the only exceptions
  of the solver are the \<open>IndexError\<close> of a list too short and the
  \<open>ZeroDivisionError\<close> of a zero \<open>sigma_c\<close>, \<open>W\<close> or \<open>d\<close>; it has no check of its own.)
\<close>

theorem calculate_tem_total:
  assumes "0 < f" "0 < d" "0 < W" "0 < L" "0 < sigma_c"
  shows "\<exists>r. calculate_tem f d W [sigma_c, mur_c] [tan_delta, mur_d, er] L = Inr r"
  using assms by (simp add: calculate_tem_Inr_iff)

theorem calculate_tem_total_witness:
  "\<exists>r. calculate_tem 6000000000 (5 / 1000) (1 / 10) [58000000, 1] [0, 1, 1.0005] 10 = Inr r"
  by (rule calculate_tem_total) simp_all

text \<open>
  Claim C10. Two calls whose inputs differ only in \<open>dielectric_data[1]\<close>, the
  relative permeability of the dielectric, have the same outcome in every component:
  the solver reads only the entries \<open>0\<close> and \<open>2\<close> of that list. The inductance it
  returns is made with the permeability of the conductor, \<open>conductor_data[1]\<close>.
\<close>

theorem calculate_tem_ignores_dielectric_mur:
  "calculate_tem f d W conductor_data (dielectric_data[1 := m]) L
     = calculate_tem f d W conductor_data dielectric_data L \<and>
   (calculate_tem f d W conductor_data dielectric_data L
      = Inr (gamma, Z0, R, L_unit, C, G, z, V_z, I_z) \<longrightarrow>
    L_unit = mu0 * (conductor_data ! 1) * d / W)"
proof
  show "calculate_tem f d W conductor_data (dielectric_data[1 := m]) L
     = calculate_tem f d W conductor_data dielectric_data L"
    unfolding calculate_tem_def getitem_def Let_def by simp
  show "calculate_tem f d W conductor_data dielectric_data L
      = Inr (gamma, Z0, R, L_unit, C, G, z, V_z, I_z) \<longrightarrow>
    L_unit = mu0 * (conductor_data ! 1) * d / W"
    by (simp add: calculate_tem_Inr_iff)
qed

theorem calculate_tem_ignores_dielectric_mur_witness:
  "\<exists>gamma Z0 R L_unit C G z V_z I_z.
     calculate_tem 6000000000 (5 / 1000) (1 / 10) [58000000, 1] ([0, 1, 1.0005][1 := 7]) 10
       = calculate_tem 6000000000 (5 / 1000) (1 / 10) [58000000, 1] [0, 1, 1.0005] 10 \<and>
     calculate_tem 6000000000 (5 / 1000) (1 / 10) [58000000, 1] [0, 1, 1.0005] 10
       = Inr (gamma, Z0, R, L_unit, C, G, z, V_z, I_z) \<and>
     L_unit = mu0 * ([58000000, 1] ! 1) * (5 / 1000) / (1 / 10)"
proof -
  obtain gamma Z0 R L_unit C G z V_z I_z where
    r: "calculate_tem 6000000000 (5 / 1000) (1 / 10) [58000000, 1] [0, 1, 1.0005] 10
          = Inr (gamma, Z0, R, L_unit, C, G, z, V_z, I_z)"
    using calculate_tem_returns [of 58000000 "1 / 10" "5 / 1000" 6000000000 1 0 1 "1.0005" 10]
    by auto
  from calculate_tem_ignores_dielectric_mur [of 6000000000 "5 / 1000" "1 / 10"
      "[58000000, 1]" "[0, 1, 1.0005]" 7 10 gamma Z0 R L_unit C G z V_z I_z] r
  show ?thesis by blast
qed

end
